theory Spec2Isabelle
  imports Main "HOL-Library.Word"
begin

unbundle bit_operations_syntax

section \<open>Memory and the arena provider\<close>

text \<open>
  The allocator of \<^verbatim>\<open>mm.c\<close> works on raw bytes: pointers and \<^verbatim>\<open>size_t\<close> are 64-bit
  words, memory is a total map from byte addresses to bytes, and a word is read and
  written as eight bytes, least significant first.
\<close>

type_synonym addr = "64 word"
type_synonym memory = "addr \<Rightarrow> 8 word"

definition load64 :: "memory \<Rightarrow> addr \<Rightarrow> 64 word" where
  "load64 m a =
     ucast (m a) OR push_bit 8 (ucast (m (a + 1))) OR push_bit 16 (ucast (m (a + 2)))
     OR push_bit 24 (ucast (m (a + 3))) OR push_bit 32 (ucast (m (a + 4)))
     OR push_bit 40 (ucast (m (a + 5))) OR push_bit 48 (ucast (m (a + 6)))
     OR push_bit 56 (ucast (m (a + 7)))"

definition store64 :: "memory \<Rightarrow> addr \<Rightarrow> 64 word \<Rightarrow> memory" where
  "store64 m a v = (\<lambda>x. if x - a < 8 then ucast (drop_bit (8 * unat (x - a)) v) else m x)"

text \<open>\<^verbatim>\<open>memcpy\<close> and \<^verbatim>\<open>memset\<close> of the C library, on \<open>n\<close> bytes (source and destination of
  \<^verbatim>\<open>memcpy\<close> do not overlap in any call the allocator makes).\<close>

definition memcpy :: "memory \<Rightarrow> addr \<Rightarrow> addr \<Rightarrow> 64 word \<Rightarrow> memory" where
  "memcpy m dst src n = (\<lambda>x. if x - dst < n then m (src + (x - dst)) else m x)"

definition memset :: "memory \<Rightarrow> addr \<Rightarrow> 8 word \<Rightarrow> 64 word \<Rightarrow> memory" where
  "memset m dst c n = (\<lambda>x. if x - dst < n then c else m x)"

text \<open>
  The state: the memory, the arena provider's three pointers (\<^verbatim>\<open>memlib.c\<close> is not part
  of the sources; its state is the low bound, the break and the limit of the arena) and the
  three globals of \<^verbatim>\<open>mm.c\<close>.
\<close>

record state =
  mem :: memory
  mem_lo :: addr
  mem_brk :: addr
  mem_max :: addr
  mm_heap_first :: addr
  mm_heap_last :: addr
  mm_free_head :: addr

datatype error = AssertionFailed

text \<open>Modelled from the spec: \<^verbatim>\<open>mem_sbrk\<close> of \<^verbatim>\<open>memlib.c\<close> (the spec's \<^verbatim>\<open>arena_extend\<close>), which
  enlarges the arena by exactly \<open>n\<close> bytes and returns the previous top of the arena, or
  null on failure. The limit of the provider is the field \<open>mem_max\<close>.\<close>

definition mem_sbrk :: "state \<Rightarrow> 64 word \<Rightarrow> state \<times> addr" where
  "mem_sbrk st n =
     (if unat (mem_brk st) + unat n \<le> unat (mem_max st)
      then (st\<lparr>mem_brk := mem_brk st + n\<rparr>, mem_brk st)
      else (st, 0))"

text \<open>Modelled from the spec: \<^verbatim>\<open>mem_heap_lo\<close> and \<^verbatim>\<open>mem_heap_hi\<close> of \<^verbatim>\<open>memlib.c\<close> (the spec's
  \<^verbatim>\<open>arena_lo\<close> and \<^verbatim>\<open>arena_hi\<close>), the inclusive bounds of the mapped region.\<close>

definition mem_heap_lo :: "state \<Rightarrow> addr" where
  "mem_heap_lo st = mem_lo st"

definition mem_heap_hi :: "state \<Rightarrow> addr" where
  "mem_heap_hi st = mem_brk st - 1"

section \<open>Block encoding\<close>

definition W_SIZE :: "64 word" where
  "W_SIZE = 8"

definition D_SIZE :: "64 word" where
  "D_SIZE = 2 * 8"

definition incr_pointer :: "64 word \<Rightarrow> addr \<Rightarrow> addr" where
  "incr_pointer bytes pointer = pointer + bytes"

definition decr_pointer :: "64 word \<Rightarrow> addr \<Rightarrow> addr" where
  "decr_pointer bytes pointer = pointer - bytes"

definition pointer_dif :: "addr \<Rightarrow> addr \<Rightarrow> 64 word" where
  "pointer_dif pointer1 pointer2 = pointer1 - pointer2"

definition round_up :: "64 word \<Rightarrow> 64 word \<Rightarrow> 64 word" where
  "round_up sz n = (sz + n - 1) div n * n"

definition get_size_from_val :: "64 word \<Rightarrow> 64 word" where
  "get_size_from_val val = val AND NOT 0xF"

definition get_size :: "state \<Rightarrow> addr \<Rightarrow> 64 word" where
  "get_size st block = get_size_from_val (load64 (mem st) block)"

definition set_header :: "state \<Rightarrow> addr \<Rightarrow> 64 word \<Rightarrow> bool \<Rightarrow> state" where
  "set_header st block sz is_alloc =
     st\<lparr>mem := store64 (mem st) block (sz OR (if is_alloc then 1 else 0))\<rparr>"

definition set_footer :: "state \<Rightarrow> addr \<Rightarrow> state" where
  "set_footer st block =
     (let sz = get_size st block;
          footer = incr_pointer (sz - W_SIZE) block
      in st\<lparr>mem := store64 (mem st) footer (load64 (mem st) block)\<rparr>)"

definition get_footer_from_header :: "state \<Rightarrow> addr \<Rightarrow> addr" where
  "get_footer_from_header st header =
     (let header_val = load64 (mem st) header
      in incr_pointer (get_size_from_val header_val - W_SIZE) header)"

definition is_allocated_from_val :: "64 word \<Rightarrow> bool" where
  "is_allocated_from_val val = (val AND 0x1 \<noteq> 0)"

definition is_allocated :: "state \<Rightarrow> addr \<Rightarrow> bool" where
  "is_allocated st block = is_allocated_from_val (load64 (mem st) block)"

definition init_heap_first :: "state \<Rightarrow> state" where
  "init_heap_first st =
     (let st1 = st\<lparr>mm_heap_first := mem_heap_lo st\<rparr>
      in st1\<lparr>mm_heap_first := incr_pointer W_SIZE (mm_heap_first st1)\<rparr>)"

definition init_heap_last :: "state \<Rightarrow> state" where
  "init_heap_last st =
     (let last_heap_index = mem_heap_hi st
      in st\<lparr>mm_heap_last := decr_pointer (D_SIZE - 1) last_heap_index\<rparr>)"

section \<open>The free list\<close>

text \<open>The payload of \<^verbatim>\<open>block_t\<close> starts 8 bytes after the block; a \<^verbatim>\<open>freed_payload\<close> has
  \<^verbatim>\<open>next\<close> at offset 0 and \<^verbatim>\<open>prev\<close> at offset 8 of the payload.\<close>

definition set_next :: "state \<Rightarrow> addr \<Rightarrow> addr \<Rightarrow> state" where
  "set_next st block nxt = st\<lparr>mem := store64 (mem st) (block + 8) nxt\<rparr>"

definition set_prev :: "state \<Rightarrow> addr \<Rightarrow> addr \<Rightarrow> state" where
  "set_prev st block prv = st\<lparr>mem := store64 (mem st) (block + 8 + 8) prv\<rparr>"

definition get_next :: "state \<Rightarrow> addr \<Rightarrow> addr" where
  "get_next st block = load64 (mem st) (block + 8)"

definition get_prev :: "state \<Rightarrow> addr \<Rightarrow> addr" where
  "get_prev st block = load64 (mem st) (block + 8 + 8)"

definition block_append :: "state \<Rightarrow> addr \<Rightarrow> state" where
  "block_append st block =
     (let st1 = set_next st block (mm_free_head st);
          st2 = (if mm_free_head st1 \<noteq> 0 then set_prev st1 (mm_free_head st1) block else st1);
          st3 = set_prev st2 block 0
      in st3\<lparr>mm_free_head := block\<rparr>)"

definition block_remove :: "state \<Rightarrow> addr \<Rightarrow> error + state" where
  "block_remove st block =
     (if get_next st (mm_free_head st) = 0 then
        (if block = mm_free_head st then Inr (st\<lparr>mm_free_head := 0\<rparr>)
         else Inl AssertionFailed)
      else
        (let nxt = get_next st block;
             prv = get_prev st block
         in if block = mm_free_head st then
              Inr ((set_prev st nxt 0)\<lparr>mm_free_head := nxt\<rparr>)
            else
              (let st1 = set_next st prv nxt
               in Inr (if nxt \<noteq> 0 then set_prev st1 nxt prv else st1))))"

section \<open>Arena lifecycle and placement\<close>

definition mm_init :: "state \<Rightarrow> state \<times> int" where
  "mm_init st =
     (let st1 = st\<lparr>mm_free_head := 0\<rparr>;
          (st2, r) = mem_sbrk st1 (2 * D_SIZE + W_SIZE)
      in if r = 0 then (st2, -1)
         else (init_heap_last (init_heap_first st2), 0))"

definition create_space :: "state \<Rightarrow> 64 word \<Rightarrow> state \<times> addr" where
  "create_space st sz =
     (let (st1, r) = mem_sbrk st sz;
          block = mm_heap_last st1;
          st2 = st1\<lparr>mm_heap_last := incr_pointer sz (mm_heap_last st1)\<rparr>;
          st3 = set_header st2 block sz True;
          st4 = set_footer st3 block
      in (st4, block))"

definition split :: "state \<Rightarrow> addr \<Rightarrow> 64 word \<Rightarrow> error + state \<times> addr" where
  "split st block sz =
     (case block_remove st block of
        Inl e \<Rightarrow> Inl e
      | Inr st1 \<Rightarrow>
          (let old_size = get_size st1 block;
               st2 = set_header st1 block sz True;
               st3 = set_footer st2 block;
               split_free = incr_pointer sz block;
               st4 = set_header st3 split_free (old_size - sz) False;
               st5 = set_footer st4 split_free;
               st6 = block_append st5 split_free
           in Inr (st6, block)))"

text \<open>The loop of \<^verbatim>\<open>find_fit\<close>; it does not change the state before it leaves, so only
  \<open>cur\<close> varies. A value \<open>None\<close> is a loop that never leaves.\<close>

partial_function (option) find_fit_loop ::
  "state \<Rightarrow> 64 word \<Rightarrow> addr \<Rightarrow> (error + state \<times> addr) option" where
  "find_fit_loop st sz cur =
     (if cur \<noteq> 0 then
        (let cur_size = get_size st cur
         in if cur_size \<ge> 2 * D_SIZE + sz then Some (split st cur sz)
            else if cur_size \<ge> sz then
              Some (case block_remove st cur of
                      Inl e \<Rightarrow> Inl e
                    | Inr st1 \<Rightarrow>
                        (let st2 = set_header st1 cur (get_size st1 cur) True;
                             st3 = set_footer st2 cur
                         in Inr (st3, cur)))
            else find_fit_loop st sz (get_next st cur))
      else Some (Inr (st, 0)))"

definition find_fit :: "state \<Rightarrow> 64 word \<Rightarrow> (error + state \<times> addr) option" where
  "find_fit st sz = find_fit_loop st sz (mm_free_head st)"

definition malloc :: "state \<Rightarrow> 64 word \<Rightarrow> (error + state \<times> addr) option" where
  "malloc st sz =
     (let st0 = (if mm_heap_first st = 0 then fst (mm_init st) else st)
      in if sz = 0 then Some (Inr (st0, 0))
         else
           (let adj_size = D_SIZE + round_up sz D_SIZE
            in case find_fit st0 adj_size of
                 None \<Rightarrow> None
               | Some (Inl e) \<Rightarrow> Some (Inl e)
               | Some (Inr (st1, block)) \<Rightarrow>
                   (let (st2, block2) =
                          (if block = 0 then create_space st1 adj_size else (st1, block))
                    in Some (Inr (st2, incr_pointer W_SIZE block2)))))"

section \<open>Coalescing and free\<close>

definition coalesce_left :: "state \<Rightarrow> addr \<Rightarrow> error + state \<times> addr" where
  "coalesce_left st block =
     (let left_footer_pt = decr_pointer W_SIZE block
      in if left_footer_pt \<noteq> incr_pointer W_SIZE (mm_heap_first st) then
           (let left_footer = load64 (mem st) left_footer_pt;
                jump_dist = get_size_from_val left_footer;
                left_block = decr_pointer jump_dist block
            in if \<not> is_allocated st left_block then
                 (case block_remove st block of
                    Inl e \<Rightarrow> Inl e
                  | Inr st1 \<Rightarrow>
                      (case block_remove st1 left_block of
                         Inl e \<Rightarrow> Inl e
                       | Inr st2 \<Rightarrow>
                           (let new_size = get_size st2 block + get_size st2 left_block;
                                st3 = set_header st2 left_block new_size False;
                                st4 = set_footer st3 left_block;
                                st5 = block_append st4 left_block
                            in Inr (st5, left_block))))
               else Inr (st, block))
         else Inr (st, block))"

definition coalesce :: "state \<Rightarrow> addr \<Rightarrow> error + state" where
  "coalesce st block =
     (case coalesce_left st block of
        Inl e \<Rightarrow> Inl e
      | Inr (st1, block1) \<Rightarrow>
          (let block_size = get_size st1 block1;
               right_block = incr_pointer block_size block1
           in if right_block \<noteq> mm_heap_last st1 \<and> \<not> is_allocated st1 right_block then
                (case coalesce_left st1 right_block of
                   Inl e \<Rightarrow> Inl e
                 | Inr (st2, b) \<Rightarrow> Inr st2)
              else Inr st1))"

definition free :: "state \<Rightarrow> addr \<Rightarrow> error + state" where
  "free st ptr =
     (let st0 = (if mm_heap_first st = 0 then fst (mm_init st) else st)
      in if ptr = 0 then Inr st0
         else
           (let to_free = decr_pointer W_SIZE ptr;
                st1 = set_header st0 to_free (get_size st0 to_free) False;
                st2 = set_footer st1 to_free;
                st3 = block_append st2 to_free
            in coalesce st3 to_free))"

section \<open>Reallocate and zero-allocate\<close>

definition realloc :: "state \<Rightarrow> addr \<Rightarrow> 64 word \<Rightarrow> (error + state \<times> addr) option" where
  "realloc st old_ptr sz =
     (if sz = 0 then
        (case free st old_ptr of Inl e \<Rightarrow> Some (Inl e) | Inr st1 \<Rightarrow> Some (Inr (st1, 0)))
      else if old_ptr = 0 then malloc st sz
      else
        (case malloc st sz of
           None \<Rightarrow> None
         | Some (Inl e) \<Rightarrow> Some (Inl e)
         | Some (Inr (st1, new_ptr)) \<Rightarrow>
             if new_ptr = 0 then Some (Inr (st1, 0))
             else
               (let block = decr_pointer W_SIZE old_ptr;
                    old_size = get_size st1 block - D_SIZE;
                    old_size = (if sz < old_size then sz else old_size);
                    st2 = st1\<lparr>mem := memcpy (mem st1) new_ptr old_ptr old_size\<rparr>
                in case free st2 old_ptr of
                     Inl e \<Rightarrow> Some (Inl e)
                   | Inr st3 \<Rightarrow> Some (Inr (st3, new_ptr)))))"

definition calloc :: "state \<Rightarrow> 64 word \<Rightarrow> 64 word \<Rightarrow> (error + state \<times> addr) option" where
  "calloc st nmemb sz =
     (let bytes = nmemb * sz
      in case malloc st bytes of
           None \<Rightarrow> None
         | Some (Inl e) \<Rightarrow> Some (Inl e)
         | Some (Inr (st1, new_ptr)) \<Rightarrow>
             Some (Inr (if new_ptr \<noteq> 0 then st1\<lparr>mem := memset (mem st1) new_ptr 0 bytes\<rparr>
                        else st1, new_ptr)))"

section \<open>The self-check\<close>

text \<open>Each \<^verbatim>\<open>printf\<close> of \<^verbatim>\<open>mm_checkheap\<close> is one report, in the order printed.\<close>

datatype report =
    PrologueNull | PrologueMoved | EpilogueNull | EpilogueMoved
  | FailureToCoalesce | BlockNotAligned | BlockOutsideHeap | FooterMismatch
  | BelowMinimumSize | AddressNotAligned
  | PrevMismatch | FreeBlockOutsideHeap
  | ListStoresMore | NotAllStored

definition say :: "bool \<Rightarrow> report \<Rightarrow> report list" where
  "say c r = (if c then [r] else [])"

text \<open>The traversal of the blocks: \<open>prev\<close>, \<open>cur\<close>, the counter \<^verbatim>\<open>num_free_check\<close> and
  the reports so far.\<close>

partial_function (option) check_blocks ::
  "state \<Rightarrow> addr \<Rightarrow> addr \<Rightarrow> 64 word \<Rightarrow> report list \<Rightarrow> (64 word \<times> report list) option" where
  "check_blocks st cur prev num out =
     (if cur \<noteq> mm_heap_last st then
        (let heap_lo = mem_heap_lo st;
             heap_hi = mem_heap_hi st;
             counted = (prev \<noteq> 0 \<and> \<not> is_allocated st cur);
             num1 = (if counted then num + 1 else num);
             out1 = out @ say (counted \<and> \<not> is_allocated st prev) FailureToCoalesce;
             sz = get_size st cur;
             out2 = out1 @ say (sz mod D_SIZE \<noteq> 0) BlockNotAligned;
             out3 = out2 @ say (cur < heap_lo \<or> cur > heap_hi) BlockOutsideHeap;
             footer = get_footer_from_header st cur;
             out4 = out3 @ say (load64 (mem st) cur \<noteq> load64 (mem st) footer) FooterMismatch;
             out5 = out4 @ say (sz < 2 * D_SIZE) BelowMinimumSize;
             out6 = out5 @ say (pointer_dif cur (mm_heap_first st) mod D_SIZE \<noteq> 0)
                      AddressNotAligned
         in check_blocks st (incr_pointer sz cur) cur num1 out6)
      else Some (num, out))"

partial_function (option) check_list ::
  "state \<Rightarrow> addr \<Rightarrow> addr \<Rightarrow> 64 word \<Rightarrow> report list \<Rightarrow> (64 word \<times> report list) option" where
  "check_list st cur prev num out =
     (if cur \<noteq> 0 then
        (let heap_lo = mem_heap_lo st;
             heap_hi = mem_heap_hi st;
             out1 = out @ say (get_prev st cur \<noteq> prev) PrevMismatch;
             out2 = out1 @ say (cur < heap_lo \<or> cur > heap_hi) FreeBlockOutsideHeap
         in check_list st (get_next st cur) cur (num - 1) out2)
      else Some (num, out))"

definition mm_checkheap :: "state \<Rightarrow> report list option" where
  "mm_checkheap st =
     (let heap_lo = mem_heap_lo st;
          heap_hi = mem_heap_hi st;
          out1 = (if mm_heap_first st = 0 then [PrologueNull]
                  else say (mm_heap_first st \<noteq> heap_lo + W_SIZE) PrologueMoved);
          out2 = out1 @ (if mm_heap_last st = 0 then [EpilogueNull]
                  else say (mm_heap_last st \<noteq> decr_pointer (D_SIZE - 1) heap_hi) EpilogueMoved)
      in case check_blocks st (incr_pointer D_SIZE (mm_heap_first st)) 0 0 out2 of
           None \<Rightarrow> None
         | Some (num1, out3) \<Rightarrow>
             (case (if mm_free_head st \<noteq> 0 then check_list st (mm_free_head st) 0 num1 out3
                    else Some (num1, out3)) of
                None \<Rightarrow> None
              | Some (num2, out4) \<Rightarrow>
                  Some (out4 @ (if num2 <s 0 then [ListStoresMore]
                                else say (0 <s num2) NotAllStored))))"

section \<open>Observing a state\<close>

text \<open>The blocks of the arena, read as \<^verbatim>\<open>mm_checkheap\<close> reads them: from
  \<^verbatim>\<open>mm_heap_first + D_SIZE\<close>, each block's header gives its size and flag, and the next block
  starts \<open>size\<close> bytes further, up to \<^verbatim>\<open>mm_heap_last\<close>. Each entry is the block's address, its
  size and whether it is allocated.\<close>

partial_function (option) blocks_from ::
  "state \<Rightarrow> addr \<Rightarrow> (addr \<times> 64 word \<times> bool) list option" where
  "blocks_from st cur =
     (if cur \<noteq> mm_heap_last st then
        Option.bind (blocks_from st (incr_pointer (get_size st cur) cur))
          (\<lambda>r. Some ((cur, get_size st cur, is_allocated st cur) # r))
      else Some [])"

definition heap_blocks :: "state \<Rightarrow> (addr \<times> 64 word \<times> bool) list option" where
  "heap_blocks st = blocks_from st (incr_pointer D_SIZE (mm_heap_first st))"

text \<open>The free list, read by following \<^verbatim>\<open>next\<close> from \<^verbatim>\<open>mm_free_head\<close> up to null.\<close>

partial_function (option) list_from :: "state \<Rightarrow> addr \<Rightarrow> addr list option" where
  "list_from st cur =
     (if cur \<noteq> 0 then
        Option.bind (list_from st (get_next st cur)) (\<lambda>r. Some (cur # r))
      else Some [])"

definition free_list :: "state \<Rightarrow> addr list option" where
  "free_list st = list_from st (mm_free_head st)"

fun no_adjacent_free :: "(addr \<times> 64 word \<times> bool) list \<Rightarrow> bool" where
  "no_adjacent_free (b1 # b2 # r) = ((snd (snd b1) \<or> snd (snd b2)) \<and> no_adjacent_free (b2 # r))"
| "no_adjacent_free [b] = True"
| "no_adjacent_free [] = True"

section \<open>Runs of the allocator\<close>

text \<open>A state of the program before \<^verbatim>\<open>mm_init\<close>: the arena is empty and the globals are null.\<close>

definition fresh :: "memory \<Rightarrow> addr \<Rightarrow> addr \<Rightarrow> state" where
  "fresh m lo mx =
     \<lparr>mem = m, mem_lo = lo, mem_brk = lo, mem_max = mx,
      mm_heap_first = 0, mm_heap_last = 0, mm_free_head = 0\<rparr>"

text \<open>A request size is in range when \<^verbatim>\<open>D_SIZE + round_up(size, D_SIZE)\<close> and the threshold
  \<^verbatim>\<open>2 * D_SIZE + adj_size\<close> of \<^verbatim>\<open>find_fit\<close> are computed without wrapping around \<open>2^64\<close>.\<close>

definition size_ok :: "64 word \<Rightarrow> bool" where
  "size_ok sz = (0 < sz \<and> sz \<le> 0xFFFFFFFFFFFFFFC0)"

text \<open>The epilogue is where \<^verbatim>\<open>mm_checkheap\<close> expects it; after a call of \<^verbatim>\<open>create_space\<close> this
  says that the arena has grown.\<close>

definition epilogue_ok :: "state \<Rightarrow> bool" where
  "epilogue_ok st = (mm_heap_last st = decr_pointer (D_SIZE - 1) (mem_heap_hi st))"

text \<open>
  The states between public calls, with the set of live payload pointers (returned by an
  allocation and not freed since). A run starts with a successful \<^verbatim>\<open>mm_init\<close> on an empty
  arena; the caller passes request sizes in range, frees and reallocates live pointers only,
  and writes only into the payload of live blocks; the arena provider has not refused to
  grow the arena.
\<close>

inductive reach :: "state \<Rightarrow> addr set \<Rightarrow> bool" where
  reach_init:
    "mem_brk st = mem_lo st \<Longrightarrow> mm_init st = (st', 0) \<Longrightarrow> reach st' {}"
| reach_malloc:
    "reach st L \<Longrightarrow> size_ok sz \<Longrightarrow> malloc st sz = Some (Inr (st', p)) \<Longrightarrow> epilogue_ok st'
     \<Longrightarrow> reach st' (insert p L)"
| reach_free:
    "reach st L \<Longrightarrow> p \<in> L \<Longrightarrow> free st p = Inr st' \<Longrightarrow> reach st' (L - {p})"
| reach_realloc:
    "reach st L \<Longrightarrow> p \<in> L \<Longrightarrow> size_ok sz \<Longrightarrow> realloc st p sz = Some (Inr (st', q))
     \<Longrightarrow> epilogue_ok st' \<Longrightarrow> reach st' (insert q (L - {p}))"
| reach_calloc:
    "reach st L \<Longrightarrow> size_ok (nmemb * sz) \<Longrightarrow> calloc st nmemb sz = Some (Inr (st', p))
     \<Longrightarrow> epilogue_ok st' \<Longrightarrow> reach st' (insert p L)"
| reach_write:
    "reach st L \<Longrightarrow> p \<in> L \<Longrightarrow> k < get_size st (decr_pointer W_SIZE p) - D_SIZE
     \<Longrightarrow> reach (st\<lparr>mem := (mem st)(p + k := v)\<rparr>) L"

section \<open>The heap as a list of blocks\<close>

text \<open>Addresses and sizes of the abstraction are natural numbers below \<open>2^64\<close>; \<open>ptr\<close> is the
  pointer and \<open>tag\<close> the boundary tag \<^verbatim>\<open>size | is_allocated\<close>.\<close>

definition ptr :: "nat \<Rightarrow> addr" where
  "ptr n = of_nat n"

definition tag :: "nat \<Rightarrow> bool \<Rightarrow> 64 word" where
  "tag s f = of_nat s OR (if f then 1 else 0)"

type_synonym blk = "nat \<times> nat \<times> bool"

text \<open>Blocks \<open>(address, size, allocated)\<close> that tile the addresses from \<open>A\<close> to \<open>E\<close>.\<close>

fun chain :: "nat \<Rightarrow> blk list \<Rightarrow> nat \<Rightarrow> bool" where
  "chain A [] E = (A = E)"
| "chain A (b # bs) E =
     (fst b = A \<and> 32 \<le> fst (snd b) \<and> 16 dvd fst (snd b) \<and> chain (A + fst (snd b)) bs E)"

definition blk_ok :: "memory \<Rightarrow> blk \<Rightarrow> bool" where
  "blk_ok m b =
     (load64 m (ptr (fst b)) = tag (fst (snd b)) (snd (snd b)) \<and>
      load64 m (ptr (fst b + fst (snd b) - 8)) = tag (fst (snd b)) (snd (snd b)))"

fun noadj :: "blk list \<Rightarrow> bool" where
  "noadj (b1 # b2 # r) = ((snd (snd b1) \<or> snd (snd b2)) \<and> noadj (b2 # r))"
| "noadj [b] = True"
| "noadj [] = True"

text \<open>A segment of the doubly-linked list: following \<^verbatim>\<open>next\<close> from \<open>h\<close> visits the nodes
  \<open>xs\<close> and arrives at \<open>q\<close>; the \<^verbatim>\<open>prev\<close> of each node is its predecessor, \<open>p\<close> for the first.\<close>

fun dseg :: "memory \<Rightarrow> addr \<Rightarrow> nat list \<Rightarrow> addr \<Rightarrow> addr \<Rightarrow> bool" where
  "dseg m p [] h q = (h = q)"
| "dseg m p (a # as) h q =
     (h = ptr a \<and> load64 m (ptr (a + 16)) = p \<and> dseg m (ptr a) as (load64 m (ptr (a + 8))) q)"

definition free_addrs :: "blk list \<Rightarrow> nat set" where
  "free_addrs bs = {a. \<exists>s. (a, s, False) \<in> set bs}"

definition live :: "blk list \<Rightarrow> addr set" where
  "live bs = {ptr (a + 8) | a s. (a, s, True) \<in> set bs}"

text \<open>The invariant without the coalescing property (it holds inside \<^verbatim>\<open>free\<close> too), and the
  invariant between public calls.\<close>

definition heap_inv0 :: "state \<Rightarrow> blk list \<Rightarrow> nat list \<Rightarrow> bool" where
  "heap_inv0 st bs fl =
     (mm_heap_first st = mem_lo st + 8 \<and>
      0 < unat (mem_lo st) \<and>
      chain (unat (mem_lo st) + 24) bs (unat (mm_heap_last st)) \<and>
      unat (mm_heap_last st) + 16 = unat (mem_brk st) \<and>
      unat (mem_brk st) \<le> unat (mem_max st) \<and>
      (\<forall>b \<in> set bs. blk_ok (mem st) b) \<and>
      dseg (mem st) 0 fl (mm_free_head st) 0 \<and>
      distinct fl \<and>
      set fl = free_addrs bs)"

definition heap_inv :: "state \<Rightarrow> blk list \<Rightarrow> nat list \<Rightarrow> bool" where
  "heap_inv st bs fl = (heap_inv0 st bs fl \<and> noadj bs)"

section \<open>Concrete states\<close>

text \<open>The state after \<^verbatim>\<open>mm_init(); p = malloc(16); free(p)\<close> on an empty arena at address
  \<open>0x1000\<close>: one free block of 32 bytes at \<open>0x1018\<close>, the only node of the free list.\<close>

definition freed_first :: "memory \<Rightarrow> state" where
  "freed_first m =
     \<lparr>mem = store64 (store64 (store64 (store64 (store64 (store64 m 4120 33) 4144 33) 4120 32)
              4144 32) 4128 0) 4136 0,
      mem_lo = 4096, mem_brk = 4168, mem_max = 1048576,
      mm_heap_first = 4104, mm_heap_last = 4152, mm_free_head = 4120\<rparr>"

section \<open>Memory lemmas\<close>

lemma byte_window:
  "(k \<le> n \<and> n - k < 64 \<and> n - k < 8 \<and> B) = (k \<le> n \<and> n < k + 8 \<and> B)" for n k :: nat
  by auto

lemma load_store_same: "load64 (store64 m a v) a = v"
  unfolding load64_def store64_def
  apply (simp add: word_less_nat_alt unat_word_ariths)
  apply (rule bit_word_eqI)
  apply (simp add: bit_simps cong: conj_cong)
  apply (simp only: byte_window)
  apply (case_tac "bit v n")
   apply simp_all
  apply arith
  done

lemma load_store_other:
  "8 \<le> a - b \<Longrightarrow> 8 \<le> b - a \<Longrightarrow> load64 (store64 m b v) a = load64 m a"
proof -
  assume h: "8 \<le> a - b" "8 \<le> b - a"
  have "\<not> (a + k) - b < 8" if "k < 8" for k :: "64 word"
    using h that by unat_arith
  from this[of 0] this[of 1] this[of 2] this[of 3] this[of 4] this[of 5] this[of 6] this[of 7]
  show ?thesis
    unfolding load64_def store64_def
    by simp
qed

section \<open>Running the code on concrete states\<close>

lemmas run_defs = fresh_def mm_init_def mem_sbrk_def init_heap_first_def init_heap_last_def
   mem_heap_lo_def mem_heap_hi_def W_SIZE_def D_SIZE_def incr_pointer_def decr_pointer_def
   malloc_def find_fit_def find_fit_loop.simps create_space_def set_header_def set_footer_def
   get_size_def get_size_from_val_def round_up_def Let_def free_def coalesce_def coalesce_left_def
   block_append_def block_remove_def set_next_def set_prev_def get_next_def get_prev_def
   is_allocated_def is_allocated_from_val_def split_def load_store_same load_store_other

lemmas check_defs = mm_checkheap_def check_blocks.simps check_list.simps say_def pointer_dif_def
   get_footer_from_header_def heap_blocks_def blocks_from.simps free_list_def list_from.simps

lemma freed_first_run:
  "\<exists>st0 st1 p. mm_init (fresh m 0x1000 0x100000) = (st0, 0) \<and>
      malloc st0 16 = Some (Inr (st1, p)) \<and> free st1 p = Inr (freed_first m)"
  by (simp add: freed_first_def run_defs)

text \<open>
  Claim C1 says that \<^verbatim>\<open>malloc\<close> returns null when the arena cannot grow and no free block
  fits. The code does not: \<^verbatim>\<open>create_space\<close> drops the result of \<^verbatim>\<open>mem_sbrk\<close>. On an arena whose
  limit is reached by \<^verbatim>\<open>mm_init\<close> (low bound \<open>0x1000\<close>, limit \<open>0x1028\<close>), with an empty free
  list, \<^verbatim>\<open>mem_sbrk(32)\<close> fails and leaves the state as it is, and \<^verbatim>\<open>malloc(16)\<close> still returns
  the non-null pointer \<open>0x1020\<close>, beyond the break, which has not moved.
\<close>

theorem malloc_ignores_failed_growth:
  "\<exists>st0 st1. mm_init (fresh m 0x1000 0x1028) = (st0, 0) \<and> free_list st0 = Some [] \<and>
     mem_sbrk st0 32 = (st0, 0) \<and> malloc st0 16 = Some (Inr (st1, 0x1020)) \<and>
     mem_brk st1 = mem_brk st0 \<and> \<not> epilogue_ok st1"
  by (simp add: run_defs check_defs epilogue_ok_def)

text \<open>
  Claim C2 says that the count of unallocated blocks of the block traversal of
  \<^verbatim>\<open>mm_checkheap\<close> equals the length of the free list, and that no reconciliation error is
  reported on a state that satisfies the invariants. The code counts a block only when
  \<^verbatim>\<open>prev != NULL\<close>, so the first block of the arena is never counted: in the state after
  \<^verbatim>\<open>mm_init(); p = malloc(16); free(p)\<close> the arena holds one free block, the free list holds
  that one block, the traversal counts 0 and \<^verbatim>\<open>mm_checkheap\<close> reports that the free list
  stores more blocks than are freed.
\<close>

theorem checkheap_skips_first_block:
  "heap_blocks (freed_first m) = Some [(4120, 32, False)] \<and>
   free_list (freed_first m) = Some [4120] \<and>
   check_blocks (freed_first m) (incr_pointer D_SIZE (mm_heap_first (freed_first m))) 0 0 []
     = Some (0, []) \<and>
   mm_checkheap (freed_first m) = Some [ListStoresMore]"
  by (simp add: freed_first_def check_defs run_defs word_sless_alt)

text \<open>
  Claim C8 (scenario S1): on an empty arena at a non-null address \<open>lo\<close> that can grow by 168
  bytes, after \<^verbatim>\<open>mm_init(); p = malloc(48); q = malloc(48); free(p); free(q)\<close> the free list
  holds exactly one block, the one at \<open>lo + 24\<close>; its size is 128, and it is the only block of
  the arena: the two blocks of 64 bytes have been merged.
\<close>

theorem split_and_coalesce_scenario:
  assumes lo: "lo \<noteq> 0" and cap: "unat lo + 168 \<le> unat mx"
  shows "\<exists>st0 st1 st2 st3 st4 p q.
      mm_init (fresh m lo mx) = (st0, 0) \<and>
      malloc st0 48 = Some (Inr (st1, p)) \<and> malloc st1 48 = Some (Inr (st2, q)) \<and>
      free st2 p = Inr st3 \<and> free st3 q = Inr st4 \<and>
      free_list st4 = Some [lo + 24] \<and> 128 \<le> get_size st4 (lo + 24) \<and>
      heap_blocks st4 = Some [(lo + 24, 128, False)]"
proof -
  have b: "unat mx < 2 ^ 64" using unsigned_less[of mx] by simp
  have u: "unat (40 + lo) = unat lo + 40" "unat (104 + lo) = unat lo + 104"
    using cap b by (simp_all add: unat_word_ariths)
  have nz: "24 + lo \<noteq> 0" "88 + lo \<noteq> 0" "32 + lo \<noteq> 0" "96 + lo \<noteq> 0" "lo + 8 \<noteq> 0"
    using cap b lo by (simp_all add: unat_eq_zero[symmetric] unat_word_ariths del: unat_eq_zero)
  have c: "lo + 24 = 24 + lo" by (simp add: add.commute)
  define st0 where "st0 = \<lparr>mem = m, mem_lo = lo, mem_brk = 40 + lo, mem_max = mx,
     mm_heap_first = lo + 8, mm_heap_last = 24 + lo, mm_free_head = 0\<rparr>"
  define m1 where "m1 = store64 (store64 m (24 + lo) 65) (80 + lo) 65"
  define st1 where "st1 = \<lparr>mem = m1, mem_lo = lo, mem_brk = 104 + lo, mem_max = mx,
     mm_heap_first = lo + 8, mm_heap_last = 88 + lo, mm_free_head = 0\<rparr>"
  define m2 where "m2 = store64 (store64 m1 (88 + lo) 65) (144 + lo) 65"
  define st2 where "st2 = \<lparr>mem = m2, mem_lo = lo, mem_brk = 168 + lo, mem_max = mx,
     mm_heap_first = lo + 8, mm_heap_last = 152 + lo, mm_free_head = 0\<rparr>"
  define m3 where
    "m3 = store64 (store64 (store64 (store64 m2 (24 + lo) 64) (80 + lo) 64) (32 + lo) 0) (40 + lo) 0"
  define st3 where "st3 = \<lparr>mem = m3, mem_lo = lo, mem_brk = 168 + lo, mem_max = mx,
     mm_heap_first = lo + 8, mm_heap_last = 152 + lo, mm_free_head = 24 + lo\<rparr>"
  define m4 where "m4 = store64 (store64 (store64 (store64 (store64 (store64 (store64 (store64
     (store64 (store64 m3 (88 + lo) 64) (144 + lo) 64) (96 + lo) (24 + lo)) (40 + lo) (88 + lo))
     (104 + lo) 0) (40 + lo) 0) (24 + lo) 128) (144 + lo) 128) (32 + lo) 0) (40 + lo) 0"
  define st4 where "st4 = \<lparr>mem = m4, mem_lo = lo, mem_brk = 168 + lo, mem_max = mx,
     mm_heap_first = lo + 8, mm_heap_last = 152 + lo, mm_free_head = 24 + lo\<rparr>"
  have i: "mm_init (fresh m lo mx) = (st0, 0)"
    using cap lo u nz by (simp add: st0_def run_defs)
  have a1: "malloc st0 48 = Some (Inr (st1, 32 + lo))"
    using cap lo u nz by (simp add: st0_def st1_def m1_def run_defs)
  have a2: "malloc st1 48 = Some (Inr (st2, 96 + lo))"
    using cap lo u nz by (simp add: st1_def st2_def m2_def run_defs)
  have f1: "free st2 (32 + lo) = Inr st3"
    using cap lo u nz by (simp add: st2_def st3_def m3_def m2_def m1_def run_defs)
  have f2: "free st3 (96 + lo) = Inr st4"
    using cap lo u nz by (simp add: st4_def m4_def st3_def m3_def m2_def m1_def run_defs)
  have g1: "load64 m4 (24 + lo) = 128" "load64 m4 (32 + lo) = 0"
    by (simp_all add: m4_def load_store_same load_store_other)
  have r: "free_list st4 = Some [lo + 24]" "128 \<le> get_size st4 (lo + 24)"
      "heap_blocks st4 = Some [(lo + 24, 128, False)]"
    using nz by (simp_all add: st4_def c g1 check_defs get_next_def get_size_def
       get_size_from_val_def is_allocated_def is_allocated_from_val_def incr_pointer_def D_SIZE_def)
  from i a1 a2 f1 f2 r show ?thesis by blast
qed

theorem split_and_coalesce_scenario_witness:
  "(0x1000 :: 64 word) \<noteq> 0 \<and> unat (0x1000 :: 64 word) + 168 \<le> unat (0x100000 :: 64 word) \<and>
   (\<exists>st0 st1 st2 st3 st4 p q.
      mm_init (fresh (\<lambda>_. 0) 0x1000 0x100000) = (st0, 0) \<and>
      malloc st0 48 = Some (Inr (st1, p)) \<and> malloc st1 48 = Some (Inr (st2, q)) \<and>
      free st2 p = Inr st3 \<and> free st3 q = Inr st4 \<and>
      free_list st4 = Some [0x1018] \<and> 128 \<le> get_size st4 0x1018 \<and>
      heap_blocks st4 = Some [(0x1018, 128, False)])"
  using split_and_coalesce_scenario[of "0x1000" "0x100000" "\<lambda>_. 0"] by simp

text \<open>
  Claim C9: \<^verbatim>\<open>calloc(nmemb, size)\<close> returns null whenever the product \<^verbatim>\<open>nmemb * size\<close>, computed
  modulo \<open>2^64\<close>, is zero (so for \<open>nmemb = 0\<close>, for \<open>size = 0\<close> and for an overflowing pair such
  as \<open>nmemb = size = 2^32\<close>); and when it returns a non-null pointer, the first
  \<^verbatim>\<open>nmemb * size\<close> (modulo \<open>2^64\<close>) bytes at that pointer are zero.
\<close>

theorem calloc_null_or_zeroed:
  "(nmemb * sz = 0 \<longrightarrow> (\<exists>st'. calloc st nmemb sz = Some (Inr (st', 0)))) \<and>
   (calloc st nmemb sz = Some (Inr (st1, p)) \<and> p \<noteq> 0 \<longrightarrow>
      nmemb * sz \<noteq> 0 \<and> (\<forall>k. k < nmemb * sz \<longrightarrow> mem st1 (p + k) = 0))"
  by (auto simp: calloc_def malloc_def Let_def memset_def
      split: option.splits sum.splits prod.splits if_splits)

theorem calloc_null_or_zeroed_witness:
  "(2 ^ 32 * 2 ^ 32 = (0 :: 64 word) \<and>
    (\<exists>st'. calloc (freed_first (\<lambda>_. 255)) (2 ^ 32) (2 ^ 32) = Some (Inr (st', 0)))) \<and>
   (\<exists>st1. calloc (freed_first (\<lambda>_. 255)) 10 8 = Some (Inr (st1, 4160)) \<and>
      (4160 :: 64 word) \<noteq> 0 \<and> (79 :: 64 word) < 10 * 8 \<and> mem st1 (4160 + 79) = 0)"
  using calloc_null_or_zeroed[of "2 ^ 32" "2 ^ 32" "freed_first (\<lambda>_. 255)"]
    calloc_null_or_zeroed[of 10 8 "freed_first (\<lambda>_. 255)"]
  by (simp add: calloc_def freed_first_def run_defs memset_def)

end
